theory Spec2Isabelle
  imports Main "HOL-Library.Sublist"
begin

section \<open>Python strings\<close>

text \<open>
  A Python \<open>str\<close> is a sequence of Unicode code points. The prompt template of
  \<open>build_prompt\<close> contains U+2013 (an en dash), and \<open>str.strip\<close> removes code points
  beyond Latin-1, so a string is modelled as the list of its code points. ASCII literals
  are written with \<open>u\<close>.
\<close>

type_synonym pystr = "nat list"

definition u :: "string \<Rightarrow> pystr" where
  "u s = map of_char s"

text \<open>
  \<open>str.isspace\<close> on one code point, as CPython decides it: the ASCII table
  (TAB..CR, FS..US, SPACE) and the Unicode white-space code points NEL, NBSP, U+1680,
  U+2000..U+200A, U+2028, U+2029, U+202F, U+205F, U+3000.
\<close>

definition isspace :: "nat \<Rightarrow> bool" where
  "isspace c \<longleftrightarrow>
     (0x09 \<le> c \<and> c \<le> 0x0D) \<or> (0x1C \<le> c \<and> c \<le> 0x20) \<or> c = 0x85 \<or> c = 0xA0 \<or>
     c = 0x1680 \<or> (0x2000 \<le> c \<and> c \<le> 0x200A) \<or> c = 0x2028 \<or> c = 0x2029 \<or>
     c = 0x202F \<or> c = 0x205F \<or> c = 0x3000"

definition lstrip :: "pystr \<Rightarrow> pystr" where
  "lstrip s = dropWhile isspace s"

definition rstrip :: "pystr \<Rightarrow> pystr" where
  "rstrip s = rev (dropWhile isspace (rev s))"

text \<open>\<open>s.strip()\<close> with no argument: white space removed at both ends.\<close>

definition strip :: "pystr \<Rightarrow> pystr" where
  "strip s = rstrip (lstrip s)"

text \<open>\<open>sep.join(parts)\<close>.\<close>

fun join :: "pystr \<Rightarrow> pystr list \<Rightarrow> pystr" where
  "join sep [] = []"
| "join sep [x] = x"
| "join sep (x # y # ys) = x @ sep @ join sep (y # ys)"

section \<open>The prompt builder\<close>

text \<open>
  The text of the f-string of \<open>build_prompt\<close> between its opening newline and the
  placeholder \<open>{diff_text}\<close>, one source line per list element.
\<close>

definition prompt_text :: pystr where
  "prompt_text = concat
    [u ''You are an expert senior code and content reviewer.\<newline>'',
     u ''You receive a unified Git diff. Your tasks are:\<newline>'',
     u ''\<newline>'',
     u ''1. *Change Overview (what changed vs previous version)*\<newline>'',
     u ''- Provide a concise bullet list of the main changes.\<newline>'',
     u ''- For each item, mention the file name and a short description.\<newline>'',
     u ''- Example: file.txt '' @ [0x2013] @ u '' new text file added containing a personal message.\<newline>'',
     u ''\<newline>'',
     u ''2. *Detailed Diff Explanation (before vs after)*\<newline>'',
     u ''- For each file in the diff, explain what changed compared to the previous version:\<newline>'',
     u ''    - What was added?\<newline>'',
     u ''    - What was removed?\<newline>'',
     u ''    - What was modified?\<newline>'',
     u ''- When useful, quote small snippets (in backticks) to show the old vs new behavior.\<newline>'',
     u ''\<newline>'',
     u ''3. *Quality, Risks & Sensitive Content*\<newline>'',
     u ''- Highlight bugs, logic issues, readability problems, and code smells.\<newline>'',
     u ''- Analyze configuration and text files as well, not only source code.\<newline>'',
     u ''- Explicitly flag any *personal, sensitive or inappropriate content* that should not be committed (e.g. names, private messages, secrets).\<newline>'',
     u ''- Mention potential security or privacy risks.\<newline>'',
     u ''\<newline>'',
     u ''4. *Actionable Recommendations*\<newline>'',
     u ''- Provide practical suggestions to improve the changes.\<newline>'',
     u ''- You can propose refactors, better naming, extra tests, or removal of sensitive data.\<newline>'',
     u ''\<newline>'',
     u ''Respond in clear Markdown with the following sections:\<newline>'',
     u ''\<newline>'',
     u ''- Summary of Changes\<newline>'',
     u ''- File-by-file Diff Explanation\<newline>'',
     u ''- Risks & Sensitive Content\<newline>'',
     u ''- Recommendations\<newline>'',
     u ''\<newline>'',
     u ''Diff:\<newline>'']"

text \<open>
  \<open>build_prompt\<close> formats the template around the diff and applies \<open>.strip()\<close> to the
  whole formatted string, the diff included.
\<close>

definition build_prompt :: "pystr \<Rightarrow> pystr" where
  "build_prompt diff_text = strip (u ''\<newline>'' @ prompt_text @ diff_text @ u ''\<newline>'')"

section \<open>Numbers as text\<close>

text \<open>\<open>str(n)\<close> for a Python \<open>int\<close>: decimal digits, with a minus sign when negative.\<close>

fun str_nat :: "nat \<Rightarrow> pystr" where
  "str_nat n = (if n < 10 then [0x30 + n] else str_nat (n div 10) @ [0x30 + n mod 10])"

declare str_nat.simps [simp del]

definition str_int :: "int \<Rightarrow> pystr" where
  "str_int i = (if i < 0 then 0x2D # str_nat (nat (- i)) else str_nat (nat i))"

text \<open>Lower-case hexadecimal digits, as \<open>'{0:04x}'.format\<close> and \<open>repr\<close> produce them.\<close>

definition hexdigit :: "nat \<Rightarrow> nat" where
  "hexdigit d = (if d < 10 then 0x30 + d else 0x57 + d)"

fun hex :: "nat \<Rightarrow> nat \<Rightarrow> pystr" where
  "hex 0 n = []"
| "hex (Suc k) n = hex k (n div 16) @ [hexdigit (n mod 16)]"

section \<open>JSON values\<close>

text \<open>
  What \<open>response.json()\<close> returns: \<open>None\<close>, \<open>bool\<close>, \<open>int\<close>, \<open>float\<close>, \<open>str\<close>,
  \<open>list\<close> and \<open>dict\<close> with \<open>str\<close> keys. A \<open>dict\<close> keeps insertion order and is an
  association list, read with \<open>map_of\<close>. A \<open>float\<close> is named by its \<open>repr\<close>, which
  determines it (\<open>nan\<close>, \<open>inf\<close> and \<open>-inf\<close> for the three special values).
\<close>

datatype json =
    JNull
  | JBool bool
  | JInt int
  | JFloat pystr
  | JString pystr
  | JArray "json list"
  | JObject "(pystr \<times> json) list"

datatype key = KStr pystr | KInt int

datatype error =
    AIReviewError pystr
  | RequestException pystr
  | KeyError
  | IndexError
  | TypeError
  | JSONDecodeError
  | OSError pystr
  | UnicodeDecodeError
  | UnicodeEncodeError

text \<open>
  \<open>obj[k]\<close> on such a value. A \<open>dict\<close> raises \<open>KeyError\<close> for an absent key (an
  \<open>int\<close> is never a key of a JSON object); a \<open>list\<close> and a \<open>str\<close> take an \<open>int\<close>,
  negative from the end, and raise \<open>IndexError\<close> out of range and \<open>TypeError\<close> for a
  \<open>str\<close> index; the other values are not subscriptable and raise \<open>TypeError\<close>.
\<close>

definition index :: "'a list \<Rightarrow> int \<Rightarrow> 'a option" where
  "index xs i =
     (if 0 \<le> i \<and> i < int (length xs) then Some (xs ! nat i)
      else if i < 0 \<and> - int (length xs) \<le> i then Some (xs ! nat (i + int (length xs)))
      else None)"

fun getitem :: "json \<Rightarrow> key \<Rightarrow> error + json" where
  "getitem (JObject kvs) (KStr k) = (case map_of kvs k of Some v \<Rightarrow> Inr v | None \<Rightarrow> Inl KeyError)"
| "getitem (JObject kvs) (KInt i) = Inl KeyError"
| "getitem (JArray xs) (KInt i) = (case index xs i of Some v \<Rightarrow> Inr v | None \<Rightarrow> Inl IndexError)"
| "getitem (JArray xs) (KStr k) = Inl TypeError"
| "getitem (JString s) (KInt i) = (case index s i of Some c \<Rightarrow> Inr (JString [c]) | None \<Rightarrow> Inl IndexError)"
| "getitem (JString s) (KStr k) = Inl TypeError"
| "getitem JNull k = Inl TypeError"
| "getitem (JBool b) k = Inl TypeError"
| "getitem (JInt i) k = Inl TypeError"
| "getitem (JFloat r) k = Inl TypeError"

section \<open>\<open>json.dumps\<close>\<close>

text \<open>
  A string literal with \<open>ensure_ascii\<close> (the default): every code point outside
  \<open>' '..'~'\<close>, the quote and the backslash are escaped; a code point beyond the BMP
  becomes a surrogate pair.
\<close>

definition json_escape :: "nat \<Rightarrow> pystr" where
  "json_escape c =
     (if c = 0x5C then [0x5C, 0x5C]
      else if c = 0x22 then [0x5C, 0x22]
      else if c = 0x08 then 0x5C # u ''b''
      else if c = 0x0C then 0x5C # u ''f''
      else if c = 0x0A then 0x5C # u ''n''
      else if c = 0x0D then 0x5C # u ''r''
      else if c = 0x09 then 0x5C # u ''t''
      else if 0x20 \<le> c \<and> c \<le> 0x7E then [c]
      else if c < 0x10000 then 0x5C # u ''u'' @ hex 4 c
      else 0x5C # u ''u'' @ hex 4 (0xD800 + (c - 0x10000) div 1024 mod 1024) @
           0x5C # u ''u'' @ hex 4 (0xDC00 + (c - 0x10000) mod 1024))"

definition json_string :: "pystr \<Rightarrow> pystr" where
  "json_string s = 0x22 # concat (map json_escape s) @ [0x22]"

definition json_float :: "pystr \<Rightarrow> pystr" where
  "json_float r =
     (if r = u ''nan'' then u ''NaN''
      else if r = u ''inf'' then u ''Infinity''
      else if r = u ''-inf'' then u ''-Infinity''
      else r)"

text \<open>
  With \<open>indent = None\<close> the items are separated by \<open>', '\<close> on one line; with
  \<open>indent = n\<close> by \<open>','\<close> and a newline followed by \<open>n\<close> spaces per nesting level.
  Empty containers are \<open>[]\<close> and \<open>{}\<close> in both modes.
\<close>

definition newline_indent :: "nat option \<Rightarrow> nat \<Rightarrow> pystr" where
  "newline_indent indent level =
     (case indent of None \<Rightarrow> [] | Some n \<Rightarrow> 0x0A # replicate (n * level) 0x20)"

definition item_separator :: "nat option \<Rightarrow> nat \<Rightarrow> pystr" where
  "item_separator indent level =
     (case indent of None \<Rightarrow> u '', '' | Some n \<Rightarrow> u '','' @ newline_indent indent level)"

fun iterencode :: "nat option \<Rightarrow> nat \<Rightarrow> json \<Rightarrow> pystr" where
  "iterencode indent level JNull = u ''null''"
| "iterencode indent level (JBool b) = (if b then u ''true'' else u ''false'')"
| "iterencode indent level (JInt i) = str_int i"
| "iterencode indent level (JFloat r) = json_float r"
| "iterencode indent level (JString s) = json_string s"
| "iterencode indent level (JArray xs) =
     (if xs = [] then u ''[]''
      else u ''['' @ newline_indent indent (level + 1) @
           join (item_separator indent (level + 1))
             (map (iterencode indent (level + 1)) xs) @
           newline_indent indent level @ u '']'')"
| "iterencode indent level (JObject kvs) =
     (if kvs = [] then u ''{}''
      else u ''{'' @ newline_indent indent (level + 1) @
           join (item_separator indent (level + 1))
             (map (\<lambda>kv. json_string (fst kv) @ u '': '' @ iterencode indent (level + 1) (snd kv)) kvs) @
           newline_indent indent level @ u ''}'')"

definition json_dumps :: "nat option \<Rightarrow> json \<Rightarrow> pystr" where
  "json_dumps indent obj = iterencode indent 0 obj"

section \<open>\<open>str\<close> and \<open>repr\<close>\<close>

text \<open>
  \<open>repr\<close> of a \<open>str\<close>: single quotes unless the string holds a single and no double
  quote; quote and backslash escaped; TAB, LF, CR as \<open>\t\<close>, \<open>\n\<close>, \<open>\r\<close>; the other
  ASCII controls as \<open>\xhh\<close>; a code point beyond ASCII as it is when printable and as
  \<open>\xhh\<close>, \<open>\uhhhh\<close> or \<open>\Uhhhhhhhh\<close> otherwise. Which code points beyond ASCII are
  printable is a table of the Unicode database, taken as the parameter \<open>printable\<close>.
\<close>

definition repr_char :: "(nat \<Rightarrow> bool) \<Rightarrow> nat \<Rightarrow> nat \<Rightarrow> pystr" where
  "repr_char printable quote c =
     (if c = quote \<or> c = 0x5C then [0x5C, c]
      else if c = 0x09 then 0x5C # u ''t''
      else if c = 0x0A then 0x5C # u ''n''
      else if c = 0x0D then 0x5C # u ''r''
      else if c < 0x20 \<or> c = 0x7F then 0x5C # u ''x'' @ hex 2 c
      else if c < 0x7F then [c]
      else if printable c then [c]
      else if c \<le> 0xFF then 0x5C # u ''x'' @ hex 2 c
      else if c \<le> 0xFFFF then 0x5C # u ''u'' @ hex 4 c
      else 0x5C # u ''U'' @ hex 8 c)"

definition repr_str :: "(nat \<Rightarrow> bool) \<Rightarrow> pystr \<Rightarrow> pystr" where
  "repr_str printable s =
     (let quote = (if 0x27 \<in> set s \<and> 0x22 \<notin> set s then 0x22 else 0x27)
      in quote # concat (map (repr_char printable quote) s) @ [quote])"

fun repr :: "(nat \<Rightarrow> bool) \<Rightarrow> json \<Rightarrow> pystr" where
  "repr printable JNull = u ''None''"
| "repr printable (JBool b) = (if b then u ''True'' else u ''False'')"
| "repr printable (JInt i) = str_int i"
| "repr printable (JFloat r) = r"
| "repr printable (JString s) = repr_str printable s"
| "repr printable (JArray xs) = u ''['' @ join (u '', '') (map (repr printable) xs) @ u '']''"
| "repr printable (JObject kvs) =
     u ''{'' @ join (u '', '')
       (map (\<lambda>kv. repr_str printable (fst kv) @ u '': '' @ repr printable (snd kv)) kvs) @ u ''}''"

text \<open>\<open>str(x)\<close>: a \<open>str\<close> is itself, every other value its \<open>repr\<close>.\<close>

fun str :: "(nat \<Rightarrow> bool) \<Rightarrow> json \<Rightarrow> pystr" where
  "str printable (JString s) = s"
| "str printable v = repr printable v"

section \<open>The HTTP exchange and the process environment\<close>

text \<open>
  What \<open>requests.post\<close> is called with (its \<open>url\<close>, \<open>headers\<close>, \<open>data\<close> and
  \<open>timeout\<close> arguments), and what it returns. \<open>json\<close> is the outcome
  of \<open>response.json()\<close>, the library's parse of \<open>text\<close>: \<open>None\<close> when the body is
  not JSON and the call raises \<open>JSONDecodeError\<close>.
\<close>

record request =
  req_url :: pystr
  req_headers :: "(pystr \<times> pystr) list"
  req_data :: pystr
  req_timeout :: nat

record response =
  status_code :: int
  "text" :: pystr
  json :: "json option"

datatype stream = Stdout | Stderr

text \<open>
  Everything outside the module: \<open>os.getenv\<close>; \<open>requests.post\<close>, which returns a
  response or raises (a \<open>RequestException\<close> carrying its \<open>str\<close>, or another exception);
  opening and reading a file as UTF-8, which returns its text or raises; the printable
  code points beyond ASCII; and the standard streams: \<open>print_raises f s\<close> is the exception
  that \<open>print(s, file=f)\<close> raises, such as \<open>UnicodeEncodeError\<close> for a text the stream
  cannot encode, or \<open>None\<close> when the text is written.
\<close>

record world =
  getenv :: "pystr \<Rightarrow> pystr option"
  post :: "request \<Rightarrow> error + response"
  open_read :: "pystr \<Rightarrow> error + pystr"
  isprintable :: "nat \<Rightarrow> bool"
  print_raises :: "stream \<Rightarrow> pystr \<Rightarrow> error option"

section \<open>The review call\<close>

definition GITHUB_MODELS_ENDPOINT :: pystr where
  "GITHUB_MODELS_ENDPOINT = u ''https://models.github.ai/inference/chat/completions''"

definition DEFAULT_MODEL :: pystr where
  "DEFAULT_MODEL = u ''openai/gpt-4o-mini''"

text \<open>Lines 101 and 102: the environment is read only when no token is passed.\<close>

definition resolve_token :: "world \<Rightarrow> pystr option \<Rightarrow> pystr option" where
  "resolve_token w token =
     (case token of None \<Rightarrow> getenv w (u ''GITHUB_TOKEN'') | Some t \<Rightarrow> Some t)"

text \<open>Lines 110 to 132: the payload, the headers and the arguments of the POST.\<close>

definition make_request :: "pystr \<Rightarrow> pystr \<Rightarrow> pystr \<Rightarrow> request" where
  "make_request diff_text model token =
     (let prompt = build_prompt diff_text;
          payload = JObject
            [(u ''model'', JString model),
             (u ''messages'', JArray
                [JObject [(u ''role'', JString (u ''user'')), (u ''content'', JString prompt)]])];
          headers =
            [(u ''Authorization'', u ''Bearer '' @ token),
             (u ''Content-Type'', u ''application/json''),
             (u ''Accept'', u ''application/json''),
             (u ''X-GitHub-Api-Version'', u ''2022-11-28'')]
      in \<lparr>req_url = GITHUB_MODELS_ENDPOINT, req_headers = headers,
          req_data = json_dumps None payload, req_timeout = 60\<rparr>)"

text \<open>Line 146: \<open>data["choices"][0]["message"]["content"]\<close>, the first exception ending it.\<close>

definition message_content :: "json \<Rightarrow> error + json" where
  "message_content data =
     (case getitem data (KStr (u ''choices'')) of
        Inl e \<Rightarrow> Inl e
      | Inr choices \<Rightarrow>
          (case getitem choices (KInt 0) of
             Inl e \<Rightarrow> Inl e
           | Inr choice \<Rightarrow>
               (case getitem choice (KStr (u ''message'')) of
                  Inl e \<Rightarrow> Inl e
                | Inr message \<Rightarrow> getitem message (KStr (u ''content'')))))"

text \<open>Lines 158 to 163: the loop appending one text per content part.\<close>

fun collect_parts :: "(nat \<Rightarrow> bool) \<Rightarrow> json list \<Rightarrow> pystr list \<Rightarrow> pystr list" where
  "collect_parts printable [] parts = parts"
| "collect_parts printable (part # rest) parts =
     collect_parts printable rest
       (parts @
        [case part of
           JObject kvs \<Rightarrow>
             (case map_of kvs (u ''text'') of
                Some t \<Rightarrow> str printable t
              | None \<Rightarrow> str printable part)
         | _ \<Rightarrow> str printable part])"

text \<open>Lines 141 to 167: what is made of a response with status 200.\<close>

definition extract_review :: "(nat \<Rightarrow> bool) \<Rightarrow> response \<Rightarrow> error + pystr" where
  "extract_review printable response =
     (case json response of
        None \<Rightarrow> Inl JSONDecodeError
      | Some data \<Rightarrow>
          (case message_content data of
             Inl KeyError \<Rightarrow>
               Inl (AIReviewError
                 (u ''Unexpected response format from API: '' @ json_dumps (Some 2) data))
           | Inl IndexError \<Rightarrow>
               Inl (AIReviewError
                 (u ''Unexpected response format from API: '' @ json_dumps (Some 2) data))
           | Inl e \<Rightarrow> Inl e
           | Inr (JString s) \<Rightarrow> Inr s
           | Inr (JArray xs) \<Rightarrow> Inr (join (u ''\<newline>'') (collect_parts printable xs []))
           | Inr content \<Rightarrow> Inr (str printable content)))"

text \<open>
  \<open>review_diff\<close> returns its result, or the exception it raises, together with the
  requests it has passed to \<open>requests.post\<close>.
\<close>

definition review_diff ::
  "world \<Rightarrow> pystr \<Rightarrow> pystr \<Rightarrow> pystr option \<Rightarrow> (error + pystr) \<times> request list" where
  "review_diff w diff_text model token =
     (if strip diff_text = [] then
        (Inl (AIReviewError (u ''Empty diff provided; nothing to review.'')), [])
      else
        (case resolve_token w token of
           None \<Rightarrow>
             (Inl (AIReviewError
                (u ''Missing GITHUB_TOKEN environment variable. '' @
                 u ''Set it to a GitHub PAT with models:read permissions.'')), [])
         | Some tok \<Rightarrow>
             if tok = [] then
               (Inl (AIReviewError
                  (u ''Missing GITHUB_TOKEN environment variable. '' @
                   u ''Set it to a GitHub PAT with models:read permissions.'')), [])
             else
               (let req = make_request diff_text model tok in
                case post w req of
                  Inl (RequestException exc) \<Rightarrow>
                    (Inl (AIReviewError (u ''HTTP request failed: '' @ exc)), [req])
                | Inl e \<Rightarrow> (Inl e, [req])
                | Inr response \<Rightarrow>
                    if status_code response \<noteq> 200 then
                      (Inl (AIReviewError
                         (u ''GitHub Models API returned '' @ str_int (status_code response) @
                          u '': '' @ text response)), [req])
                    else (extract_review (isprintable w) response, [req]))))"

section \<open>The command line\<close>

definition read_file :: "world \<Rightarrow> pystr \<Rightarrow> error + pystr" where
  "read_file w path = open_read w path"

text \<open>
  What a run of \<open>main\<close> leaves: the exit code it returns, or the exception that leaves
  it uncaught, what it has printed, and the requests it has sent.
\<close>

record run =
  result :: "error + int"
  stdout :: pystr
  stderr :: pystr
  requests :: "request list"

text \<open>
  \<open>print(s, file=f)\<close> followed by \<open>return code\<close>, as each of the four exits of \<open>main\<close>
  does. None of the four \<open>print\<close> calls is inside a \<open>try\<close> block, so an exception of
  \<open>print\<close> leaves \<open>main\<close>; the text of a \<open>print\<close> that raises is not recorded as
  printed.
\<close>

definition print_and_return :: "world \<Rightarrow> stream \<Rightarrow> pystr \<Rightarrow> int \<Rightarrow> request list \<Rightarrow> run" where
  "print_and_return w f s code sent =
     (case print_raises w f s of
        Some e \<Rightarrow> \<lparr>result = Inl e, stdout = [], stderr = [], requests = sent\<rparr>
      | None \<Rightarrow>
          \<lparr>result = Inr code,
           stdout = (if f = Stdout then s @ u ''\<newline>'' else []),
           stderr = (if f = Stderr then s @ u ''\<newline>'' else []),
           requests = sent\<rparr>)"

definition main :: "world \<Rightarrow> pystr list \<Rightarrow> run" where
  "main w argv =
     (if length argv < 2 then
        print_and_return w Stderr (u ''Usage: python -m bot.review path/to/diff.txt'') 1 []
      else
        (let diff_path = argv ! 1 in
         case read_file w diff_path of
           Inl (OSError exc) \<Rightarrow>
             print_and_return w Stderr
               (u ''Error reading diff file '' @ [0x27] @ diff_path @ [0x27] @ u '': '' @ exc) 1 []
         | Inl e \<Rightarrow> \<lparr>result = Inl e, stdout = [], stderr = [], requests = []\<rparr>
         | Inr diff_text \<Rightarrow>
             (case review_diff w diff_text DEFAULT_MODEL None of
                (Inl (AIReviewError exc), sent) \<Rightarrow>
                  print_and_return w Stderr (u ''AI review failed: '' @ exc) 2 sent
              | (Inl e, sent) \<Rightarrow> \<lparr>result = Inl e, stdout = [], stderr = [], requests = sent\<rparr>
              | (Inr review, sent) \<Rightarrow> print_and_return w Stdout review 0 sent)))"

text \<open>
  A simulated exchange: a world whose environment is empty, whose files do not exist and
  whose every POST is answered by the one given response. Its standard output is a strict
  UTF-8 stream, which cannot encode a surrogate code point; its standard error replaces
  what it cannot encode, as Python's does, and never raises.
\<close>

definition simulated :: "response \<Rightarrow> world" where
  "simulated r =
     \<lparr>getenv = (\<lambda>name. None), post = (\<lambda>req. Inr r),
      open_read = (\<lambda>path. Inl (OSError (u ''[Errno 2] No such file or directory''))),
      isprintable = (\<lambda>c. True),
      print_raises = (\<lambda>f s.
        if f = Stdout \<and> list_ex (\<lambda>c. 0xD800 \<le> c \<and> c \<le> 0xDFFF) s
        then Some UnicodeEncodeError else None)\<rparr>"

text \<open>
  The same for a run from the command line: \<open>GITHUB_TOKEN\<close> is set to the given
  token and every path opens a file holding the given text.
\<close>

definition simulated_cli :: "response \<Rightarrow> pystr \<Rightarrow> pystr \<Rightarrow> world" where
  "simulated_cli r token contents =
     (simulated r)
       \<lparr>getenv := (\<lambda>name. if name = u ''GITHUB_TOKEN'' then Some token else None),
        open_read := (\<lambda>path. Inr contents)\<rparr>"

section \<open>Properties of stripping and of substrings\<close>

lemma u_append: "u (a @ b) = u a @ u b"
  by (simp add: u_def)

lemma rstrip_append:
  "rstrip (xs @ ys) = (if \<forall>c\<in>set ys. isspace c then rstrip xs else xs @ rstrip ys)"
  by (simp add: rstrip_def dropWhile_append)

lemma rstrip_last: "s \<noteq> [] \<Longrightarrow> \<not> isspace (last s) \<Longrightarrow> rstrip s = s"
  by (cases s rule: rev_cases) (simp_all add: rstrip_def)

lemma rstrip_blank: "\<forall>c\<in>set s. isspace c \<Longrightarrow> rstrip s = []"
  by (simp add: rstrip_def)

lemma strip_empty_iff: "strip s = [] \<longleftrightarrow> (\<forall>c\<in>set s. isspace c)"
proof
  assume e: "strip s = []"
  show "\<forall>c\<in>set s. isspace c"
  proof (rule ccontr)
    assume "\<not> (\<forall>c\<in>set s. isspace c)"
    then have ne: "dropWhile isspace s \<noteq> []" by simp
    then have "\<not> isspace (hd (dropWhile isspace s))" by (rule hd_dropWhile)
    moreover have "hd (dropWhile isspace s) \<in> set (rev (dropWhile isspace s))"
      using ne by simp
    moreover from e have "\<forall>c\<in>set (rev (dropWhile isspace s)). isspace c"
      by (simp add: strip_def lstrip_def rstrip_def)
    ultimately show False by blast
  qed
next
  assume "\<forall>c\<in>set s. isspace c"
  then show "strip s = []"
    by (auto simp: strip_def lstrip_def rstrip_def dest: set_dropWhileD)
qed

lemma sublist_rstrip:
  assumes "sublist h xs" "h \<noteq> []" "\<not> isspace (last h)"
  shows "sublist h (rstrip (xs @ ys))"
proof -
  from assms(1) obtain ps ss where xs: "xs = ps @ h @ ss" by (auto simp: sublist_def)
  have nsp: "\<not> (\<forall>c\<in>set (h @ r). isspace c)" for r
    using assms(2,3) last_in_set by fastforce
  have "rstrip (ps @ (h @ (ss @ ys))) = ps @ rstrip (h @ (ss @ ys))"
    using nsp[of "ss @ ys"] by (simp only: rstrip_append [of ps] if_False)
  then have "rstrip (xs @ ys) = ps @ rstrip (h @ (ss @ ys))"
    by (simp add: xs)
  moreover have "prefix h (rstrip (h @ r))" for r
    by (simp add: rstrip_append rstrip_last assms(2,3))
  ultimately show ?thesis
    by (metis prefix_def sublist_appendI)
qed

lemma sublist_line: "l \<in> set ls \<Longrightarrow> l = a @ h @ b \<Longrightarrow> sublist h (concat ls)"
proof -
  assume l: "l \<in> set ls" and e: "l = a @ h @ b"
  from l obtain ps ss where "ls = ps @ l # ss" by (auto dest: split_list)
  then have "concat ls = (concat ps @ a) @ h @ (b @ concat ss)" by (simp add: e)
  then show ?thesis by (metis sublist_appendI)
qed

lemma not_sublist_tail:
  assumes "c \<notin> set A" "length t < length (c # h)"
  shows "\<not> sublist (c # h) (A @ t)"
proof
  assume "sublist (c # h) (A @ t)"
  then obtain ps ss where e: "A @ t = ps @ (c # h) @ ss" by (auto simp: sublist_def)
  then consider us where "A = ps @ us" "us @ t = (c # h) @ ss"
    | us where "A @ us = ps" "t = us @ (c # h) @ ss"
    by (auto simp: append_eq_append_conv2)
  then show False
  proof cases
    case 1
    show False
    proof (cases us)
      case Nil
      with 1 assms(2) show False by simp
    next
      case (Cons a us')
      with 1 assms(1) show False by simp
    qed
  next
    case 2
    with assms(2) show False by simp
  qed
qed

section \<open>Properties of the prompt builder\<close>

lemma prompt_text_Cons: "\<exists>t. prompt_text = 0x59 # t"
  by (simp add: prompt_text_def u_def)

lemma lstrip_prompt: "lstrip (u ''\<newline>'' @ prompt_text @ r) = prompt_text @ r"
proof -
  obtain t where t: "prompt_text = 0x59 # t" using prompt_text_Cons by blast
  show ?thesis
    by (simp add: lstrip_def u_def isspace_def t)
qed

lemma build_prompt_rstrip: "build_prompt d = rstrip (prompt_text @ d)"
proof -
  have "build_prompt d = rstrip ((prompt_text @ d) @ u ''\<newline>'')"
    by (simp add: build_prompt_def strip_def lstrip_prompt)
  also have "\<dots> = rstrip (prompt_text @ d)"
    by (subst rstrip_append) (simp add: u_def isspace_def)
  finally show ?thesis .
qed

lemma heading_summary: "sublist (u ''Summary of Changes'') prompt_text"
  unfolding prompt_text_def
  by (rule sublist_line [where l = "u ''- Summary of Changes\<newline>''"
        and a = "u ''- ''" and b = "u ''\<newline>''"])
     (simp_all add: u_append [symmetric])

lemma heading_explanation: "sublist (u ''File-by-file Diff Explanation'') prompt_text"
  unfolding prompt_text_def
  by (rule sublist_line [where l = "u ''- File-by-file Diff Explanation\<newline>''"
        and a = "u ''- ''" and b = "u ''\<newline>''"])
     (simp_all add: u_append [symmetric])

lemma heading_risks: "sublist (u ''Risks & Sensitive Content'') prompt_text"
  unfolding prompt_text_def
  by (rule sublist_line [where l = "u ''- Risks & Sensitive Content\<newline>''"
        and a = "u ''- ''" and b = "u ''\<newline>''"])
     (simp_all add: u_append [symmetric])

lemma heading_recommendations: "sublist (u ''Recommendations'') prompt_text"
  unfolding prompt_text_def
  by (rule sublist_line [where l = "u ''- Recommendations\<newline>''"
        and a = "u ''- ''" and b = "u ''\<newline>''"])
     (simp_all add: u_append [symmetric])

lemma heading_in_prompt:
  "sublist h prompt_text \<Longrightarrow> h \<noteq> [] \<Longrightarrow> \<not> isspace (last h) \<Longrightarrow> sublist h (build_prompt d)"
  by (simp add: build_prompt_rstrip sublist_rstrip)

lemma plus_not_in_prompt_text: "0x2B \<notin> set prompt_text"
  by (simp add: prompt_text_def u_def)

text \<open>
  C3 (as stated, refuted): the prompt built from the diff \<open>+x\<close> followed by a newline
  does not contain that diff: the final \<open>.strip()\<close> has removed its newline.
\<close>

theorem build_prompt_drops_trailing_newline:
  "\<not> sublist (u ''+x\<newline>'') (build_prompt (u ''+x\<newline>''))"
proof -
  have "build_prompt (u ''+x\<newline>'') = prompt_text @ u ''+x''"
    by (simp add: build_prompt_rstrip rstrip_append) (simp add: u_def isspace_def rstrip_def)
  moreover have "\<not> sublist (0x2B # u ''x\<newline>'') (prompt_text @ u ''+x'')"
    by (rule not_sublist_tail [OF plus_not_in_prompt_text]) (simp add: u_def)
  ultimately show ?thesis by (simp add: u_def)
qed

text \<open>
  C3 (amended): for every diff text, the prompt contains the diff with its trailing
  white space removed, hence the diff itself when it is empty or ends in a character
  that is not white space, and it contains the four section headings.
\<close>

theorem build_prompt_contains_diff_and_headings:
  "sublist (rstrip diff_text) (build_prompt diff_text) \<and>
   (diff_text = [] \<or> \<not> isspace (last diff_text) \<longrightarrow> sublist diff_text (build_prompt diff_text)) \<and>
   sublist (u ''Summary of Changes'') (build_prompt diff_text) \<and>
   sublist (u ''File-by-file Diff Explanation'') (build_prompt diff_text) \<and>
   sublist (u ''Risks & Sensitive Content'') (build_prompt diff_text) \<and>
   sublist (u ''Recommendations'') (build_prompt diff_text)"
proof -
  have a: "sublist (rstrip diff_text) (build_prompt diff_text)"
    by (simp add: build_prompt_rstrip rstrip_append rstrip_blank)
  have b: "sublist diff_text (build_prompt diff_text)"
    if "diff_text = [] \<or> \<not> isspace (last diff_text)"
  proof (cases "diff_text = []")
    case True
    then show ?thesis by simp
  next
    case False
    with that have "rstrip diff_text = diff_text" by (simp add: rstrip_last)
    with a show ?thesis by simp
  qed
  have c: "sublist (u ''Summary of Changes'') (build_prompt diff_text)"
    by (rule heading_in_prompt [OF heading_summary]) (simp_all add: u_def isspace_def)
  have d: "sublist (u ''File-by-file Diff Explanation'') (build_prompt diff_text)"
    by (rule heading_in_prompt [OF heading_explanation]) (simp_all add: u_def isspace_def)
  have e: "sublist (u ''Risks & Sensitive Content'') (build_prompt diff_text)"
    by (rule heading_in_prompt [OF heading_risks]) (simp_all add: u_def isspace_def)
  have f: "sublist (u ''Recommendations'') (build_prompt diff_text)"
    by (rule heading_in_prompt [OF heading_recommendations]) (simp_all add: u_def isspace_def)
  from a b c d e f show ?thesis by blast
qed

theorem build_prompt_contains_diff_and_headings_witness:
  "\<not> isspace (last (u ''+x'')) \<and> sublist (u ''+x'') (build_prompt (u ''+x''))"
proof -
  have h: "\<not> isspace (last (u ''+x''))" by (simp add: u_def isspace_def)
  with build_prompt_contains_diff_and_headings [of "u ''+x''"] show ?thesis by blast
qed

section \<open>Properties of the review call\<close>

lemma resolve_token_Some: "resolve_token w (Some t) = Some t"
  by (simp add: resolve_token_def)

lemma resolve_token_None: "resolve_token w None = getenv w (u ''GITHUB_TOKEN'')"
  by (simp add: resolve_token_def)

lemma review_diff_blank:
  "strip d = [] \<Longrightarrow>
   review_diff w d model token =
     (Inl (AIReviewError (u ''Empty diff provided; nothing to review.'')), [])"
  by (simp add: review_diff_def)

lemma review_diff_no_token:
  "strip d \<noteq> [] \<Longrightarrow> resolve_token w token = None \<or> resolve_token w token = Some [] \<Longrightarrow>
   review_diff w d model token =
     (Inl (AIReviewError
        (u ''Missing GITHUB_TOKEN environment variable. Set it to a GitHub PAT with models:read permissions.'')), [])"
  by (auto simp: review_diff_def u_append [symmetric])

lemma review_diff_answered:
  assumes "strip d \<noteq> []" and "resolve_token w token = Some tok" and "tok \<noteq> []"
    and "post w (make_request d model tok) = Inr r"
  shows "review_diff w d model token =
     (if status_code r \<noteq> 200 then
        Inl (AIReviewError
          (u ''GitHub Models API returned '' @ str_int (status_code r) @ u '': '' @ text r))
      else extract_review (isprintable w) r,
      [make_request d model tok])"
  using assms by (simp add: review_diff_def Let_def)

lemma simulated_sel [simp]:
  "getenv (simulated r) name = None"
  "post (simulated r) req = Inr r"
  "isprintable (simulated r) c = True"
  "open_read (simulated r) path = Inl (OSError (u ''[Errno 2] No such file or directory''))"
  "print_raises (simulated r) Stderr s = None"
  "print_raises (simulated r) Stdout s =
     (if list_ex (\<lambda>c. 0xD800 \<le> c \<and> c \<le> 0xDFFF) s then Some UnicodeEncodeError else None)"
  by (simp_all add: simulated_def)

lemma simulated_cli_sel [simp]:
  "getenv (simulated_cli r tok contents) (u ''GITHUB_TOKEN'') = Some tok"
  "post (simulated_cli r tok contents) req = Inr r"
  "isprintable (simulated_cli r tok contents) c = True"
  "open_read (simulated_cli r tok contents) path = Inr contents"
  "print_raises (simulated_cli r tok contents) f s = print_raises (simulated r) f s"
  by (simp_all add: simulated_cli_def)

lemma strip_plus_x: "strip (u ''+x'') \<noteq> []"
  by (simp add: strip_empty_iff u_def isspace_def)

lemma token_t: "u ''t'' \<noteq> []"
  by (simp add: u_def)

lemma str_int_404: "str_int 404 = u ''404''"
  by (simp add: str_int_def str_nat.simps u_def)

text \<open>
  C7: a diff that is empty or holds white space only is refused with the empty-input
  error, whatever the model and the token are, and no request has been issued.
\<close>

theorem review_diff_rejects_blank_diff:
  "\<forall>c\<in>set diff_text. isspace c \<Longrightarrow>
   review_diff w diff_text model token =
     (Inl (AIReviewError (u ''Empty diff provided; nothing to review.'')), [])"
  by (simp add: review_diff_blank strip_empty_iff)

theorem review_diff_rejects_blank_diff_witness:
  "review_diff (simulated_cli \<lparr>status_code = 200, text = [], json = None\<rparr> (u ''t'') [])
       (u '' \<newline>  '') DEFAULT_MODEL (Some (u ''t'')) =
     (Inl (AIReviewError (u ''Empty diff provided; nothing to review.'')), [])"
proof -
  have h: "\<forall>c\<in>set (u '' \<newline>  ''). isspace c" by (simp add: u_def isspace_def)
  from review_diff_rejects_blank_diff [OF h] show ?thesis .
qed

text \<open>
  C8: for a diff holding a character that is not white space, with no token passed and
  \<open>GITHUB_TOKEN\<close> unset, the call fails with the missing-credential error and no
  request has been issued.
\<close>

theorem review_diff_requires_credential:
  "\<exists>c\<in>set diff_text. \<not> isspace c \<Longrightarrow> getenv w (u ''GITHUB_TOKEN'') = None \<Longrightarrow>
   review_diff w diff_text model None =
     (Inl (AIReviewError
        (u ''Missing GITHUB_TOKEN environment variable. Set it to a GitHub PAT with models:read permissions.'')), [])"
  by (rule review_diff_no_token) (simp_all add: strip_empty_iff resolve_token_None)

theorem review_diff_requires_credential_witness:
  "(\<exists>c\<in>set (u ''+x''). \<not> isspace c) \<and>
   getenv (simulated \<lparr>status_code = 200, text = [], json = None\<rparr>) (u ''GITHUB_TOKEN'') = None \<and>
   review_diff (simulated \<lparr>status_code = 200, text = [], json = None\<rparr>) (u ''+x'')
       DEFAULT_MODEL None =
     (Inl (AIReviewError
        (u ''Missing GITHUB_TOKEN environment variable. Set it to a GitHub PAT with models:read permissions.'')), [])"
proof -
  have h: "\<exists>c\<in>set (u ''+x''). \<not> isspace c" by (simp add: u_def isspace_def)
  have g: "getenv (simulated \<lparr>status_code = 200, text = [], json = None\<rparr>) (u ''GITHUB_TOKEN'') = None"
    by simp
  from h g review_diff_requires_credential [OF h g] show ?thesis by blast
qed



text \<open>
  C6: when the answer to the request has a status other than 200, the call fails with
  the tagged error, and its message contains the status code in decimal and the raw
  body of the response.
\<close>

theorem review_diff_reports_status_and_body:
  assumes "strip diff_text \<noteq> []" and "resolve_token w token = Some tok" and "tok \<noteq> []"
    and "post w (make_request diff_text model tok) = Inr r"
    and "status_code r \<noteq> 200"
  shows "\<exists>msg. fst (review_diff w diff_text model token) = Inl (AIReviewError msg) \<and>
           sublist (str_int (status_code r)) msg \<and> sublist (text r) msg"
proof -
  let ?msg = "u ''GitHub Models API returned '' @ str_int (status_code r) @ u '': '' @ text r"
  have "fst (review_diff w diff_text model token) = Inl (AIReviewError ?msg)"
    using assms by (simp add: review_diff_answered)
  moreover have "sublist (str_int (status_code r)) ?msg"
    by (rule sublist_appendI)
  moreover have "sublist (text r) ?msg"
    by (metis append.assoc append_Nil2 sublist_appendI)
  ultimately show ?thesis by blast
qed

theorem review_diff_reports_status_and_body_witness:
  "\<exists>msg. fst (review_diff (simulated \<lparr>status_code = 404, text = u ''not found'', json = None\<rparr>)
            (u ''+x'') DEFAULT_MODEL (Some (u ''t''))) = Inl (AIReviewError msg) \<and>
         sublist (u ''404'') msg \<and> sublist (u ''not found'') msg"
  using review_diff_reports_status_and_body
    [where diff_text = "u ''+x''"
       and w = "simulated \<lparr>status_code = 404, text = u ''not found'', json = None\<rparr>"
       and token = "Some (u ''t'')" and tok = "u ''t''" and model = DEFAULT_MODEL
       and r = "\<lparr>status_code = 404, text = u ''not found'', json = None\<rparr>"]
  by (simp add: strip_plus_x token_t resolve_token_Some str_int_404)

section \<open>Properties of the extraction of the review text\<close>


lemma extract_review_content:
  "json r = Some dat \<Longrightarrow> message_content dat = Inr c \<Longrightarrow>
   extract_review printable r =
     (case c of JString s \<Rightarrow> Inr s
      | JArray xs \<Rightarrow> Inr (join (u ''\<newline>'') (collect_parts printable xs []))
      | _ \<Rightarrow> Inr (str printable c))"
  by (simp add: extract_review_def split: json.splits)

lemma extract_review_malformed:
  "json r = Some dat \<Longrightarrow> message_content dat = Inl KeyError \<or> message_content dat = Inl IndexError \<Longrightarrow>
   extract_review printable r =
     Inl (AIReviewError (u ''Unexpected response format from API: '' @ json_dumps (Some 2) dat))"
  by (auto simp: extract_review_def)

lemma extract_review_type_error:
  "json r = Some dat \<Longrightarrow> message_content dat = Inl TypeError \<Longrightarrow>
   extract_review printable r = Inl TypeError"
  by (simp add: extract_review_def)

lemma index_0 [simp]: "index (x # xs) 0 = Some x" "index [] 0 = None"
  by (simp_all add: index_def)





text \<open>
  C2 (as stated, refuted): for status 200 and body \<open>{"choices":[]}\<close> the call fails
  with the malformed-response error, but its message holds the parsed body written
  again by \<open>json.dumps\<close> with \<open>indent=2\<close>; the raw body is not part of it.
\<close>

theorem malformed_message_lacks_raw_body:
  "fst (review_diff
      (simulated
         \<lparr>status_code = 200, text = u ''{\"choices\":[]}'',
          json = Some (JObject [(u ''choices'', JArray [])])\<rparr>)
      (u ''+x'') DEFAULT_MODEL (Some (u ''t''))) =
     Inl (AIReviewError
       (u ''Unexpected response format from API: {\<newline>  \"choices\": []\<newline>}'')) \<and>
   \<not> sublist (u ''{\"choices\":[]}'')
       (u ''Unexpected response format from API: {\<newline>  \"choices\": []\<newline>}'')"
proof -
  let ?dat = "JObject [(u ''choices'', JArray [])]"
  let ?r = "\<lparr>status_code = 200, text = u ''{\"choices\":[]}'', json = Some ?dat\<rparr>"
  have m: "message_content ?dat = Inl IndexError"
    by (simp add: message_content_def)
  have d: "json_dumps (Some 2) ?dat = u ''{\<newline>  \"choices\": []\<newline>}''"
    by (simp add: json_dumps_def newline_indent_def item_separator_def json_string_def
        json_escape_def u_def numeral_2_eq_2)
  have "fst (review_diff (simulated ?r) (u ''+x'') DEFAULT_MODEL (Some (u ''t''))) =
      Inl (AIReviewError (u ''Unexpected response format from API: '' @ json_dumps (Some 2) ?dat))"
    by (simp add: review_diff_answered [where tok = "u ''t''" and r = ?r]
        extract_review_malformed [where dat = ?dat] m strip_plus_x token_t resolve_token_Some)
  moreover have "u ''Unexpected response format from API: '' @ u ''{\<newline>  \"choices\": []\<newline>}'' =
      u ''Unexpected response format from API: {\<newline>  \"choices\": []\<newline>}''"
    by (simp add: u_def)
  moreover have "\<not> sublist (u ''{\"choices\":[]}'')
       (u ''Unexpected response format from API: {\<newline>  \"choices\": []\<newline>}'')"
    by (simp add: u_def sublist_code(3))
  ultimately show ?thesis by (simp add: d)
qed

lemma dumps_empty_choices:
  "json_dumps (Some 2) (JObject [(u ''choices'', JArray [])]) =
     u ''{\<newline>  \"choices\": []\<newline>}''"
  by (simp add: json_dumps_def newline_indent_def item_separator_def json_string_def
      json_escape_def u_def numeral_2_eq_2)

text \<open>
  C2 (amended): when the path to the content of a 200 response ends in \<open>KeyError\<close> or
  \<open>IndexError\<close>, as it does for the body \<open>{"choices":[]}\<close>, the call fails with the
  malformed-response error, and the message is the fixed prefix followed by the parsed
  body as \<open>json.dumps\<close> writes it with \<open>indent=2\<close>; for that body, an opening brace,
  the line \<open>"choices": []\<close> indented by two spaces, and a closing brace.
\<close>

theorem malformed_message_holds_reserialised_body:
  assumes "strip diff_text \<noteq> []" and "resolve_token w token = Some tok" and "tok \<noteq> []"
    and "post w (make_request diff_text model tok) = Inr r"
    and "status_code r = 200" and "json r = Some dat"
    and "message_content dat = Inl KeyError \<or> message_content dat = Inl IndexError"
  shows "fst (review_diff w diff_text model token) =
           Inl (AIReviewError
             (u ''Unexpected response format from API: '' @ json_dumps (Some 2) dat)) \<and>
         message_content (JObject [(u ''choices'', JArray [])]) = Inl IndexError \<and>
         json_dumps (Some 2) (JObject [(u ''choices'', JArray [])]) =
           u ''{\<newline>  \"choices\": []\<newline>}''"
  using assms
  by (simp add: review_diff_answered extract_review_malformed dumps_empty_choices
      message_content_def)

theorem malformed_message_holds_reserialised_body_witness:
  "fst (review_diff
      (simulated
         \<lparr>status_code = 200, text = u ''{\"choices\":[]}'',
          json = Some (JObject [(u ''choices'', JArray [])])\<rparr>)
      (u ''+x'') DEFAULT_MODEL (Some (u ''t''))) =
     Inl (AIReviewError
       (u ''Unexpected response format from API: '' @ u ''{\<newline>  \"choices\": []\<newline>}''))"
proof -
  let ?dat = "JObject [(u ''choices'', JArray [])]"
  let ?r = "\<lparr>status_code = 200, text = u ''{\"choices\":[]}'', json = Some ?dat\<rparr>"
  have m: "message_content ?dat = Inl IndexError"
    by (simp add: message_content_def)
  show ?thesis
    using malformed_message_holds_reserialised_body
      [where diff_text = "u ''+x''" and w = "simulated ?r" and token = "Some (u ''t'')"
         and tok = "u ''t''" and model = DEFAULT_MODEL and r = ?r and dat = ?dat]
    by (simp add: strip_plus_x token_t resolve_token_Some m)
qed

text \<open>
  C1: a 200 response whose body is the JSON object \<open>{"choices": null}\<close> does not match
  the expected shape, and the call ends in \<open>TypeError\<close>, which the handler for
  \<open>KeyError\<close> and \<open>IndexError\<close> lets through.
\<close>

theorem review_diff_null_choices_type_error:
  "fst (review_diff
      (simulated
         \<lparr>status_code = 200, text = u ''{\"choices\": null}'',
          json = Some (JObject [(u ''choices'', JNull)])\<rparr>)
      (u ''+x'') DEFAULT_MODEL (Some (u ''t''))) = Inl TypeError"
proof -
  let ?dat = "JObject [(u ''choices'', JNull)]"
  let ?r = "\<lparr>status_code = 200, text = u ''{\"choices\": null}'', json = Some ?dat\<rparr>"
  have m: "message_content ?dat = Inl TypeError"
    by (simp add: message_content_def)
  show ?thesis
    by (simp add: review_diff_answered [where tok = "u ''t''" and r = ?r]
        extract_review_type_error [where dat = ?dat] m strip_plus_x token_t resolve_token_Some)
qed

section \<open>Properties of the command line\<close>

lemma review_diff_simulated_cli:
  assumes "strip d \<noteq> []" and "tok \<noteq> []"
  shows "fst (review_diff (simulated_cli r tok contents) d model None) =
     (if status_code r \<noteq> 200 then
        Inl (AIReviewError
          (u ''GitHub Models API returned '' @ str_int (status_code r) @ u '': '' @ text r))
      else extract_review (isprintable (simulated_cli r tok contents)) r)"
  using assms
  by (simp add: review_diff_answered [where tok = tok and r = r] resolve_token_None)



lemma print_and_return_ok:
  "print_raises w f s = None \<Longrightarrow>
   print_and_return w f s code sent =
     \<lparr>result = Inr code,
      stdout = (if f = Stdout then s @ u ''\<newline>'' else []),
      stderr = (if f = Stderr then s @ u ''\<newline>'' else []),
      requests = sent\<rparr>"
  by (simp add: print_and_return_def)

lemma print_and_return_raises:
  "print_raises w f s = Some e \<Longrightarrow>
   print_and_return w f s code sent =
     \<lparr>result = Inl e, stdout = [], stderr = [], requests = sent\<rparr>"
  by (simp add: print_and_return_def)

lemma main_usage:
  "length argv < 2 \<Longrightarrow>
   main w argv =
     print_and_return w Stderr (u ''Usage: python -m bot.review path/to/diff.txt'') 1 []"
  by (simp add: main_def)

lemma main_read_error:
  "2 \<le> length argv \<Longrightarrow> read_file w (argv ! 1) = Inl (OSError exc) \<Longrightarrow>
   main w argv =
     print_and_return w Stderr
       (u ''Error reading diff file '' @ [0x27] @ argv ! 1 @ [0x27] @ u '': '' @ exc) 1 []"
  by (simp add: main_def)

lemma main_read_raises:
  "2 \<le> length argv \<Longrightarrow> read_file w (argv ! 1) = Inl e \<Longrightarrow> \<forall>m. e \<noteq> OSError m \<Longrightarrow>
   main w argv = \<lparr>result = Inl e, stdout = [], stderr = [], requests = []\<rparr>"
  by (cases e) (simp_all add: main_def)

lemma main_review_failed:
  "2 \<le> length argv \<Longrightarrow> read_file w (argv ! 1) = Inr diff_text \<Longrightarrow>
   fst (review_diff w diff_text DEFAULT_MODEL None) = Inl (AIReviewError msg) \<Longrightarrow>
   main w argv =
     print_and_return w Stderr (u ''AI review failed: '' @ msg) 2
       (snd (review_diff w diff_text DEFAULT_MODEL None))"
  by (cases "review_diff w diff_text DEFAULT_MODEL None") (simp add: main_def)

lemma main_review_raises:
  "2 \<le> length argv \<Longrightarrow> read_file w (argv ! 1) = Inr diff_text \<Longrightarrow>
   fst (review_diff w diff_text DEFAULT_MODEL None) = Inl e \<Longrightarrow> \<forall>m. e \<noteq> AIReviewError m \<Longrightarrow>
   main w argv =
     \<lparr>result = Inl e, stdout = [], stderr = [],
      requests = snd (review_diff w diff_text DEFAULT_MODEL None)\<rparr>"
  by (cases "review_diff w diff_text DEFAULT_MODEL None"; cases e) (simp_all add: main_def)

lemma main_review_returned:
  "2 \<le> length argv \<Longrightarrow> read_file w (argv ! 1) = Inr diff_text \<Longrightarrow>
   fst (review_diff w diff_text DEFAULT_MODEL None) = Inr review \<Longrightarrow>
   main w argv =
     print_and_return w Stdout review 0 (snd (review_diff w diff_text DEFAULT_MODEL None))"
  by (cases "review_diff w diff_text DEFAULT_MODEL None") (simp add: main_def)

text \<open>
  C9 (as stated, refuted): with a readable file, a token in the environment and a 200
  response whose body is not JSON, \<open>main\<close> has none of the four outcomes: the
  \<open>JSONDecodeError\<close> of \<open>response.json()\<close> leaves it uncaught; \<open>main\<close> prints nothing
  and returns no exit code.
\<close>

theorem main_uncaught_json_decode_error:
  "result (main (simulated_cli \<lparr>status_code = 200, text = u ''<html>'', json = None\<rparr>
                   (u ''t'') (u ''+x''))
             [u ''review.py'', u ''pr_diff.txt'']) = Inl JSONDecodeError \<and>
   stdout (main (simulated_cli \<lparr>status_code = 200, text = u ''<html>'', json = None\<rparr>
                   (u ''t'') (u ''+x''))
             [u ''review.py'', u ''pr_diff.txt'']) = [] \<and>
   stderr (main (simulated_cli \<lparr>status_code = 200, text = u ''<html>'', json = None\<rparr>
                   (u ''t'') (u ''+x''))
             [u ''review.py'', u ''pr_diff.txt'']) = []"
proof -
  let ?w = "simulated_cli \<lparr>status_code = 200, text = u ''<html>'', json = None\<rparr>
              (u ''t'') (u ''+x'')"
  let ?argv = "[u ''review.py'', u ''pr_diff.txt'']"
  have len: "2 \<le> length ?argv" by simp
  have r: "read_file ?w (?argv ! 1) = Inr (u ''+x'')"
    by (simp add: read_file_def)
  have v: "fst (review_diff ?w (u ''+x'') DEFAULT_MODEL None) = Inl JSONDecodeError"
    by (simp add: review_diff_simulated_cli strip_plus_x token_t extract_review_def)
  show ?thesis
    by (simp add: main_review_raises [OF len r v])
qed

text \<open>
  C9 (amended): \<open>main\<close> has five terminal outcomes. With fewer than two arguments it
  prints the usage line to standard error and returns 1; when opening or reading the
  file raises \<open>OSError\<close> it prints the read error to standard error and returns 1;
  when \<open>review_diff\<close> raises the tagged error it prints its message to standard error
  and returns 2; when \<open>review_diff\<close> returns it prints the review to standard output
  and returns 0; each of these four provided its \<open>print\<close> call does not raise. The
  fifth is an exception that leaves \<open>main\<close> uncaught, with no exit code returned and
  nothing recorded as printed: when reading raises an exception other than \<open>OSError\<close>,
  when \<open>review_diff\<close> raises an exception other than the tagged error, and when the
  \<open>print\<close> call of one of the four exits raises, as \<open>print(review)\<close> does with
  \<open>UnicodeEncodeError\<close> for a review that standard output cannot encode. Nothing is
  printed to the other stream in any of them.
\<close>

theorem main_outcomes:
  "(length argv < 2 \<and>
    print_raises w Stderr (u ''Usage: python -m bot.review path/to/diff.txt'') = None \<longrightarrow>
      result (main w argv) = Inr 1 \<and> stdout (main w argv) = [] \<and>
      stderr (main w argv) = u ''Usage: python -m bot.review path/to/diff.txt'' @ u ''\<newline>'') \<and>
   (length argv < 2 \<and>
    print_raises w Stderr (u ''Usage: python -m bot.review path/to/diff.txt'') = Some e \<longrightarrow>
      result (main w argv) = Inl e \<and> stdout (main w argv) = [] \<and> stderr (main w argv) = []) \<and>
   (2 \<le> length argv \<and> read_file w (argv ! 1) = Inl (OSError exc) \<and>
    print_raises w Stderr
      (u ''Error reading diff file '' @ [0x27] @ argv ! 1 @ [0x27] @ u '': '' @ exc) = None \<longrightarrow>
      result (main w argv) = Inr 1 \<and> stdout (main w argv) = [] \<and>
      stderr (main w argv) =
        (u ''Error reading diff file '' @ [0x27] @ argv ! 1 @ [0x27] @ u '': '' @ exc) @
        u ''\<newline>'') \<and>
   (2 \<le> length argv \<and> read_file w (argv ! 1) = Inl (OSError exc) \<and>
    print_raises w Stderr
      (u ''Error reading diff file '' @ [0x27] @ argv ! 1 @ [0x27] @ u '': '' @ exc) = Some e \<longrightarrow>
      result (main w argv) = Inl e \<and> stdout (main w argv) = [] \<and> stderr (main w argv) = []) \<and>
   (2 \<le> length argv \<and> read_file w (argv ! 1) = Inl e \<and> (\<forall>m. e \<noteq> OSError m) \<longrightarrow>
      result (main w argv) = Inl e \<and> stdout (main w argv) = [] \<and> stderr (main w argv) = []) \<and>
   (2 \<le> length argv \<and> read_file w (argv ! 1) = Inr diff_text \<and>
    fst (review_diff w diff_text DEFAULT_MODEL None) = Inl (AIReviewError msg) \<and>
    print_raises w Stderr (u ''AI review failed: '' @ msg) = None \<longrightarrow>
      result (main w argv) = Inr 2 \<and> stdout (main w argv) = [] \<and>
      stderr (main w argv) = (u ''AI review failed: '' @ msg) @ u ''\<newline>'') \<and>
   (2 \<le> length argv \<and> read_file w (argv ! 1) = Inr diff_text \<and>
    fst (review_diff w diff_text DEFAULT_MODEL None) = Inl (AIReviewError msg) \<and>
    print_raises w Stderr (u ''AI review failed: '' @ msg) = Some e \<longrightarrow>
      result (main w argv) = Inl e \<and> stdout (main w argv) = [] \<and> stderr (main w argv) = []) \<and>
   (2 \<le> length argv \<and> read_file w (argv ! 1) = Inr diff_text \<and>
    fst (review_diff w diff_text DEFAULT_MODEL None) = Inl e \<and> (\<forall>m. e \<noteq> AIReviewError m) \<longrightarrow>
      result (main w argv) = Inl e \<and> stdout (main w argv) = [] \<and> stderr (main w argv) = []) \<and>
   (2 \<le> length argv \<and> read_file w (argv ! 1) = Inr diff_text \<and>
    fst (review_diff w diff_text DEFAULT_MODEL None) = Inr review \<and>
    print_raises w Stdout review = None \<longrightarrow>
      result (main w argv) = Inr 0 \<and> stdout (main w argv) = review @ u ''\<newline>'' \<and>
      stderr (main w argv) = []) \<and>
   (2 \<le> length argv \<and> read_file w (argv ! 1) = Inr diff_text \<and>
    fst (review_diff w diff_text DEFAULT_MODEL None) = Inr review \<and>
    print_raises w Stdout review = Some e \<longrightarrow>
      result (main w argv) = Inl e \<and> stdout (main w argv) = [] \<and> stderr (main w argv) = [])"
proof -
  have a: "length argv < 2 \<Longrightarrow> print_raises w Stderr s = None \<Longrightarrow>
      s = u ''Usage: python -m bot.review path/to/diff.txt'' \<Longrightarrow>
      result (main w argv) = Inr 1 \<and> stdout (main w argv) = [] \<and>
      stderr (main w argv) = s @ u ''\<newline>''" for s
    by (simp add: main_usage print_and_return_ok)
  have a': "length argv < 2 \<Longrightarrow>
      print_raises w Stderr (u ''Usage: python -m bot.review path/to/diff.txt'') = Some e \<Longrightarrow>
      result (main w argv) = Inl e \<and> stdout (main w argv) = [] \<and> stderr (main w argv) = []"
    by (simp add: main_usage print_and_return_raises)
  have b: "2 \<le> length argv \<Longrightarrow> read_file w (argv ! 1) = Inl (OSError exc) \<Longrightarrow>
      print_raises w Stderr s = None \<Longrightarrow>
      s = u ''Error reading diff file '' @ [0x27] @ argv ! 1 @ [0x27] @ u '': '' @ exc \<Longrightarrow>
      result (main w argv) = Inr 1 \<and> stdout (main w argv) = [] \<and>
      stderr (main w argv) = s @ u ''\<newline>''" for s
    by (simp add: main_read_error print_and_return_ok)
  have b': "2 \<le> length argv \<Longrightarrow> read_file w (argv ! 1) = Inl (OSError exc) \<Longrightarrow>
      print_raises w Stderr
        (u ''Error reading diff file '' @ [0x27] @ argv ! 1 @ [0x27] @ u '': '' @ exc) = Some e \<Longrightarrow>
      result (main w argv) = Inl e \<and> stdout (main w argv) = [] \<and> stderr (main w argv) = []"
    by (simp add: main_read_error print_and_return_raises)
  have c: "2 \<le> length argv \<Longrightarrow> read_file w (argv ! 1) = Inl e \<Longrightarrow> \<forall>m. e \<noteq> OSError m \<Longrightarrow>
      result (main w argv) = Inl e \<and> stdout (main w argv) = [] \<and> stderr (main w argv) = []"
    by (simp add: main_read_raises)
  have d: "2 \<le> length argv \<Longrightarrow> read_file w (argv ! 1) = Inr diff_text \<Longrightarrow>
      fst (review_diff w diff_text DEFAULT_MODEL None) = Inl (AIReviewError msg) \<Longrightarrow>
      print_raises w Stderr s = None \<Longrightarrow> s = u ''AI review failed: '' @ msg \<Longrightarrow>
      result (main w argv) = Inr 2 \<and> stdout (main w argv) = [] \<and>
      stderr (main w argv) = s @ u ''\<newline>''" for s
    by (simp add: main_review_failed print_and_return_ok)
  have d': "2 \<le> length argv \<Longrightarrow> read_file w (argv ! 1) = Inr diff_text \<Longrightarrow>
      fst (review_diff w diff_text DEFAULT_MODEL None) = Inl (AIReviewError msg) \<Longrightarrow>
      print_raises w Stderr (u ''AI review failed: '' @ msg) = Some e \<Longrightarrow>
      result (main w argv) = Inl e \<and> stdout (main w argv) = [] \<and> stderr (main w argv) = []"
    by (simp add: main_review_failed print_and_return_raises)
  have f: "2 \<le> length argv \<Longrightarrow> read_file w (argv ! 1) = Inr diff_text \<Longrightarrow>
      fst (review_diff w diff_text DEFAULT_MODEL None) = Inl e \<Longrightarrow> \<forall>m. e \<noteq> AIReviewError m \<Longrightarrow>
      result (main w argv) = Inl e \<and> stdout (main w argv) = [] \<and> stderr (main w argv) = []"
    by (simp add: main_review_raises)
  have g: "2 \<le> length argv \<Longrightarrow> read_file w (argv ! 1) = Inr diff_text \<Longrightarrow>
      fst (review_diff w diff_text DEFAULT_MODEL None) = Inr review \<Longrightarrow>
      print_raises w Stdout review = None \<Longrightarrow>
      result (main w argv) = Inr 0 \<and> stdout (main w argv) = review @ u ''\<newline>'' \<and>
      stderr (main w argv) = []"
    by (simp add: main_review_returned print_and_return_ok)
  have g': "2 \<le> length argv \<Longrightarrow> read_file w (argv ! 1) = Inr diff_text \<Longrightarrow>
      fst (review_diff w diff_text DEFAULT_MODEL None) = Inr review \<Longrightarrow>
      print_raises w Stdout review = Some e \<Longrightarrow>
      result (main w argv) = Inl e \<and> stdout (main w argv) = [] \<and> stderr (main w argv) = []"
    by (simp add: main_review_returned print_and_return_raises)
  have A: "length argv < 2 \<and>
      print_raises w Stderr (u ''Usage: python -m bot.review path/to/diff.txt'') = None \<longrightarrow>
      result (main w argv) = Inr 1 \<and> stdout (main w argv) = [] \<and>
      stderr (main w argv) = u ''Usage: python -m bot.review path/to/diff.txt'' @ u ''\<newline>''"
    using a [OF _ _ refl] by blast
  have A': "length argv < 2 \<and>
      print_raises w Stderr (u ''Usage: python -m bot.review path/to/diff.txt'') = Some e \<longrightarrow>
      result (main w argv) = Inl e \<and> stdout (main w argv) = [] \<and> stderr (main w argv) = []"
    using a' by blast
  have B: "2 \<le> length argv \<and> read_file w (argv ! 1) = Inl (OSError exc) \<and>
      print_raises w Stderr
        (u ''Error reading diff file '' @ [0x27] @ argv ! 1 @ [0x27] @ u '': '' @ exc) = None \<longrightarrow>
      result (main w argv) = Inr 1 \<and> stdout (main w argv) = [] \<and>
      stderr (main w argv) =
        (u ''Error reading diff file '' @ [0x27] @ argv ! 1 @ [0x27] @ u '': '' @ exc) @
        u ''\<newline>''"
    using b [OF _ _ _ refl] by blast
  have B': "2 \<le> length argv \<and> read_file w (argv ! 1) = Inl (OSError exc) \<and>
      print_raises w Stderr
        (u ''Error reading diff file '' @ [0x27] @ argv ! 1 @ [0x27] @ u '': '' @ exc) = Some e \<longrightarrow>
      result (main w argv) = Inl e \<and> stdout (main w argv) = [] \<and> stderr (main w argv) = []"
    using b' by blast
  have C: "2 \<le> length argv \<and> read_file w (argv ! 1) = Inl e \<and> (\<forall>m. e \<noteq> OSError m) \<longrightarrow>
      result (main w argv) = Inl e \<and> stdout (main w argv) = [] \<and> stderr (main w argv) = []"
    using c by blast
  have D: "2 \<le> length argv \<and> read_file w (argv ! 1) = Inr diff_text \<and>
      fst (review_diff w diff_text DEFAULT_MODEL None) = Inl (AIReviewError msg) \<and>
      print_raises w Stderr (u ''AI review failed: '' @ msg) = None \<longrightarrow>
      result (main w argv) = Inr 2 \<and> stdout (main w argv) = [] \<and>
      stderr (main w argv) = (u ''AI review failed: '' @ msg) @ u ''\<newline>''"
    using d [OF _ _ _ _ refl] by blast
  have D': "2 \<le> length argv \<and> read_file w (argv ! 1) = Inr diff_text \<and>
      fst (review_diff w diff_text DEFAULT_MODEL None) = Inl (AIReviewError msg) \<and>
      print_raises w Stderr (u ''AI review failed: '' @ msg) = Some e \<longrightarrow>
      result (main w argv) = Inl e \<and> stdout (main w argv) = [] \<and> stderr (main w argv) = []"
    using d' by blast
  have F: "2 \<le> length argv \<and> read_file w (argv ! 1) = Inr diff_text \<and>
      fst (review_diff w diff_text DEFAULT_MODEL None) = Inl e \<and> (\<forall>m. e \<noteq> AIReviewError m) \<longrightarrow>
      result (main w argv) = Inl e \<and> stdout (main w argv) = [] \<and> stderr (main w argv) = []"
    using f by blast
  have G: "2 \<le> length argv \<and> read_file w (argv ! 1) = Inr diff_text \<and>
      fst (review_diff w diff_text DEFAULT_MODEL None) = Inr review \<and>
      print_raises w Stdout review = None \<longrightarrow>
      result (main w argv) = Inr 0 \<and> stdout (main w argv) = review @ u ''\<newline>'' \<and>
      stderr (main w argv) = []"
    using g by blast
  have G': "2 \<le> length argv \<and> read_file w (argv ! 1) = Inr diff_text \<and>
      fst (review_diff w diff_text DEFAULT_MODEL None) = Inr review \<and>
      print_raises w Stdout review = Some e \<longrightarrow>
      result (main w argv) = Inl e \<and> stdout (main w argv) = [] \<and> stderr (main w argv) = []"
    using g' by blast
  show ?thesis
    by (intro conjI) (fact A, fact A', fact B, fact B', fact C, fact D, fact D', fact F, fact G, fact G')
qed

theorem main_outcomes_witness:
  "(result (main (simulated \<lparr>status_code = 200, text = [], json = None\<rparr>) [u ''review.py'']) = Inr 1 \<and>
    stderr (main (simulated \<lparr>status_code = 200, text = [], json = None\<rparr>) [u ''review.py'']) =
      u ''Usage: python -m bot.review path/to/diff.txt'' @ u ''\<newline>'') \<and>
   (result (main (simulated \<lparr>status_code = 200, text = [], json = None\<rparr>)
              [u ''review.py'', u ''pr_diff.txt'']) = Inr 1 \<and>
    stderr (main (simulated \<lparr>status_code = 200, text = [], json = None\<rparr>)
              [u ''review.py'', u ''pr_diff.txt'']) =
      (u ''Error reading diff file '' @ [0x27] @ u ''pr_diff.txt'' @ [0x27] @ u '': '' @
       u ''[Errno 2] No such file or directory'') @ u ''\<newline>'') \<and>
   result (main ((simulated \<lparr>status_code = 200, text = [], json = None\<rparr>)
                   \<lparr>open_read := (\<lambda>path. Inl UnicodeDecodeError)\<rparr>)
             [u ''review.py'', u ''pr_diff.txt'']) = Inl UnicodeDecodeError \<and>
   (result (main (simulated_cli \<lparr>status_code = 404, text = u ''not found'', json = None\<rparr>
                    (u ''t'') (u ''+x''))
              [u ''review.py'', u ''pr_diff.txt'']) = Inr 2 \<and>
    stderr (main (simulated_cli \<lparr>status_code = 404, text = u ''not found'', json = None\<rparr>
                    (u ''t'') (u ''+x''))
              [u ''review.py'', u ''pr_diff.txt'']) =
      (u ''AI review failed: '' @ u ''GitHub Models API returned 404: not found'') @ u ''\<newline>'') \<and>
   result (main (simulated_cli
                   \<lparr>status_code = 200, text = u ''{\"choices\": null}'',
                    json = Some (JObject [(u ''choices'', JNull)])\<rparr> (u ''t'') (u ''+x''))
             [u ''review.py'', u ''pr_diff.txt'']) = Inl TypeError \<and>
   (result (main (simulated_cli
                    \<lparr>status_code = 200,
                     text = u ''{\"choices\":[{\"message\":{\"content\":\"Hello\"}}]}'',
                     json = Some (JObject [(u ''choices'', JArray
                       [JObject [(u ''message'', JObject [(u ''content'', JString (u ''Hello''))])]])])\<rparr>
                    (u ''t'') (u ''+x''))
              [u ''review.py'', u ''pr_diff.txt'']) = Inr 0 \<and>
    stdout (main (simulated_cli
                    \<lparr>status_code = 200,
                     text = u ''{\"choices\":[{\"message\":{\"content\":\"Hello\"}}]}'',
                     json = Some (JObject [(u ''choices'', JArray
                       [JObject [(u ''message'', JObject [(u ''content'', JString (u ''Hello''))])]])])\<rparr>
                    (u ''t'') (u ''+x''))
              [u ''review.py'', u ''pr_diff.txt'']) = u ''Hello'' @ u ''\<newline>'') \<and>
   (result (main (simulated_cli
                    \<lparr>status_code = 200,
                     text = u ''{\"choices\":[{\"message\":{\"content\":\"'' @ [0x5C] @ u ''ud800\"}}]}'',
                     json = Some (JObject [(u ''choices'', JArray
                       [JObject [(u ''message'', JObject [(u ''content'', JString [0xD800])])]])])\<rparr>
                    (u ''t'') (u ''+x''))
              [u ''review.py'', u ''pr_diff.txt'']) = Inl UnicodeEncodeError \<and>
    stdout (main (simulated_cli
                    \<lparr>status_code = 200,
                     text = u ''{\"choices\":[{\"message\":{\"content\":\"'' @ [0x5C] @ u ''ud800\"}}]}'',
                     json = Some (JObject [(u ''choices'', JArray
                       [JObject [(u ''message'', JObject [(u ''content'', JString [0xD800])])]])])\<rparr>
                    (u ''t'') (u ''+x''))
              [u ''review.py'', u ''pr_diff.txt'']) = [])"
proof -
  let ?argv = "[u ''review.py'', u ''pr_diff.txt'']"
  let ?w0 = "simulated \<lparr>status_code = 200, text = [], json = None\<rparr>"
  let ?w1 = "?w0\<lparr>open_read := (\<lambda>path. Inl UnicodeDecodeError)\<rparr>"
  let ?w2 = "simulated_cli \<lparr>status_code = 404, text = u ''not found'', json = None\<rparr>
               (u ''t'') (u ''+x'')"
  let ?d3 = "JObject [(u ''choices'', JNull)]"
  let ?w3 = "simulated_cli \<lparr>status_code = 200, text = u ''{\"choices\": null}'', json = Some ?d3\<rparr>
               (u ''t'') (u ''+x'')"
  let ?d4 = "JObject [(u ''choices'', JArray
               [JObject [(u ''message'', JObject [(u ''content'', JString (u ''Hello''))])]])]"
  let ?w4 = "simulated_cli
               \<lparr>status_code = 200,
                text = u ''{\"choices\":[{\"message\":{\"content\":\"Hello\"}}]}'',
                json = Some ?d4\<rparr> (u ''t'') (u ''+x'')"
  let ?d5 = "JObject [(u ''choices'', JArray
               [JObject [(u ''message'', JObject [(u ''content'', JString [0xD800])])]])]"
  let ?w5 = "simulated_cli
               \<lparr>status_code = 200,
                text = u ''{\"choices\":[{\"message\":{\"content\":\"'' @ [0x5C] @ u ''ud800\"}}]}'',
                json = Some ?d5\<rparr> (u ''t'') (u ''+x'')"
  have len: "2 \<le> length ?argv" by simp
  have c1: "result (main ?w0 [u ''review.py'']) = Inr 1 \<and>
      stderr (main ?w0 [u ''review.py'']) =
        u ''Usage: python -m bot.review path/to/diff.txt'' @ u ''\<newline>''"
    using main_outcomes [where w = ?w0 and argv = "[u ''review.py'']"] by simp
  have r2: "read_file ?w0 (?argv ! 1) = Inl (OSError (u ''[Errno 2] No such file or directory''))"
    by (simp add: read_file_def)
  have c2: "result (main ?w0 ?argv) = Inr 1 \<and>
      stderr (main ?w0 ?argv) =
        (u ''Error reading diff file '' @ [0x27] @ u ''pr_diff.txt'' @ [0x27] @ u '': '' @
         u ''[Errno 2] No such file or directory'') @ u ''\<newline>''"
    using main_outcomes [where w = ?w0 and argv = ?argv
        and exc = "u ''[Errno 2] No such file or directory''"] len r2
    by simp
  have r3: "read_file ?w1 (?argv ! 1) = Inl UnicodeDecodeError"
    by (simp add: read_file_def)
  have c3: "result (main ?w1 ?argv) = Inl UnicodeDecodeError"
    using main_outcomes [where w = ?w1 and argv = ?argv and e = UnicodeDecodeError] len r3
    by simp
  have r4: "read_file ?w2 (?argv ! 1) = Inr (u ''+x'')"
    by (simp add: read_file_def)
  have v4: "fst (review_diff ?w2 (u ''+x'') DEFAULT_MODEL None) =
      Inl (AIReviewError (u ''GitHub Models API returned 404: not found''))"
    by (simp add: review_diff_simulated_cli strip_plus_x token_t str_int_404 u_append [symmetric])
  have c4: "result (main ?w2 ?argv) = Inr 2 \<and>
      stderr (main ?w2 ?argv) =
        (u ''AI review failed: '' @ u ''GitHub Models API returned 404: not found'') @ u ''\<newline>''"
    using main_outcomes [where w = ?w2 and argv = ?argv and diff_text = "u ''+x''"
        and msg = "u ''GitHub Models API returned 404: not found''"] len r4 v4
    by simp
  have r5: "read_file ?w3 (?argv ! 1) = Inr (u ''+x'')"
    by (simp add: read_file_def)
  have m5: "message_content ?d3 = Inl TypeError"
    by (simp add: message_content_def)
  have v5: "fst (review_diff ?w3 (u ''+x'') DEFAULT_MODEL None) = Inl TypeError"
    by (simp add: review_diff_simulated_cli strip_plus_x token_t
        extract_review_type_error [where dat = ?d3] m5)
  have c5: "result (main ?w3 ?argv) = Inl TypeError"
    using main_outcomes [where w = ?w3 and argv = ?argv and diff_text = "u ''+x''"
        and e = TypeError] len r5 v5
    by simp
  have r6: "read_file ?w4 (?argv ! 1) = Inr (u ''+x'')"
    by (simp add: read_file_def)
  have m6: "message_content ?d4 = Inr (JString (u ''Hello''))"
    by (simp add: message_content_def)
  have v6: "fst (review_diff ?w4 (u ''+x'') DEFAULT_MODEL None) = Inr (u ''Hello'')"
    by (simp add: review_diff_simulated_cli strip_plus_x token_t
        extract_review_content [where dat = ?d4 and c = "JString (u ''Hello'')"] m6)
  have p6: "print_raises ?w4 Stdout (u ''Hello'') = None"
    by (simp add: u_def)
  have c6: "result (main ?w4 ?argv) = Inr 0 \<and>
      stdout (main ?w4 ?argv) = u ''Hello'' @ u ''\<newline>''"
    using main_outcomes [where w = ?w4 and argv = ?argv and diff_text = "u ''+x''"
        and review = "u ''Hello''"] len r6 v6 p6
    by simp
  have r7: "read_file ?w5 (?argv ! 1) = Inr (u ''+x'')"
    by (simp add: read_file_def)
  have m7: "message_content ?d5 = Inr (JString [0xD800])"
    by (simp add: message_content_def)
  have v7: "fst (review_diff ?w5 (u ''+x'') DEFAULT_MODEL None) = Inr [0xD800]"
    by (simp add: review_diff_simulated_cli strip_plus_x token_t
        extract_review_content [where dat = ?d5 and c = "JString [0xD800]"] m7)
  have p7: "print_raises ?w5 Stdout [0xD800] = Some UnicodeEncodeError"
    by simp
  have c7: "result (main ?w5 ?argv) = Inl UnicodeEncodeError \<and> stdout (main ?w5 ?argv) = []"
    using main_outcomes [where w = ?w5 and argv = ?argv and diff_text = "u ''+x''"
        and review = "[0xD800]" and e = UnicodeEncodeError] len r7 v7 p7
    by simp
  from c1 c2 c3 c4 c5 c6 c7 show ?thesis by blast
qed

end
